theory Spec2Isabelle
  imports Complex_Main
begin

section \<open>Values read from the supplier feed\<close>

text \<open>
  The supplier catalogue is JSON, so a field such as \<^verbatim>\<open>precio\<close> may hold any JSON value.
  Python's \<^verbatim>\<open>float\<close> objects are IEEE doubles; here they are idealised as exact rationals
  (no rounding error, no overflow, no \<^verbatim>\<open>inf\<close>/\<^verbatim>\<open>nan\<close>). Lists and dictionaries occur only as
  arguments that \<^verbatim>\<open>float()\<close> rejects, so their contents are not kept.
\<close>

datatype pyval = PyNone | PyBool bool | PyInt int | PyFloat rat | PyStr string | PyList | PyDict

datatype py_error = ValueError | TypeError | KeyError | RequestException | ApiException | ShopifyException

text \<open>
  The builtin \<^verbatim>\<open>float(x)\<close>: numbers convert, \<^verbatim>\<open>None\<close> and containers raise \<^verbatim>\<open>TypeError\<close>, a
  string is parsed and raises \<^verbatim>\<open>ValueError\<close> when it is no number. The grammar of numeric
  strings belongs to the interpreter, not to this repository, so the parser is a parameter
  \<open>parse\<close> of everything below.
\<close>

definition float_py :: "(string \<Rightarrow> rat option) \<Rightarrow> pyval \<Rightarrow> py_error + rat" where
  "float_py parse x =
     (case x of
        PyNone \<Rightarrow> Inl TypeError
      | PyBool b \<Rightarrow> Inr (if b then 1 else 0)
      | PyInt i \<Rightarrow> Inr (of_int i)
      | PyFloat r \<Rightarrow> Inr r
      | PyStr s \<Rightarrow> (case parse s of None \<Rightarrow> Inl ValueError | Some r \<Rightarrow> Inr r)
      | PyList \<Rightarrow> Inl TypeError
      | PyDict \<Rightarrow> Inl TypeError)"

text \<open>
  A concrete parser for the examples: plain decimal literals such as \<^verbatim>\<open>100.00\<close>, the form the
  supplier's price strings take (\<^verbatim>\<open>float()\<close> accepts more: exponents, blanks, underscores).
\<close>

definition digit_of :: "char \<Rightarrow> nat option" where
  "digit_of c =
     (let n = (of_char c :: nat) in if 48 \<le> n \<and> n \<le> 57 then Some (n - 48) else None)"

fun digits_to_nat :: "string \<Rightarrow> nat \<Rightarrow> nat option" where
  "digits_to_nat [] acc = Some acc"
| "digits_to_nat (c # cs) acc =
     (case digit_of c of None \<Rightarrow> None | Some d \<Rightarrow> digits_to_nat cs (10 * acc + d))"

definition unsigned_decimal :: "string \<Rightarrow> rat option" where
  "unsigned_decimal s =
     (let ip = takeWhile (\<lambda>c. c \<noteq> CHR ''.'') s;
          fp = (case dropWhile (\<lambda>c. c \<noteq> CHR ''.'') s of [] \<Rightarrow> [] | _ # f \<Rightarrow> f)
      in if ip = [] \<and> fp = [] then None
         else (case (digits_to_nat ip 0, digits_to_nat fp 0) of
                 (Some i, Some f) \<Rightarrow> Some (of_nat i + of_nat f / 10 ^ length fp)
               | _ \<Rightarrow> None))"

definition decimal_literal :: "string \<Rightarrow> rat option" where
  "decimal_literal s =
     (case s of
        [] \<Rightarrow> None
      | c # r \<Rightarrow> if c = CHR ''-'' then map_option uminus (unsigned_decimal r)
                 else if c = CHR ''+'' then unsigned_decimal r
                 else unsigned_decimal s)"

text \<open>
  The format \<^verbatim>\<open>f"{x:.2f}"\<close> writes \<open>x\<close> with two decimals, rounding to the nearest hundredth
  and an exact tie to the even digit. The text is kept as the decimal number it denotes.
\<close>

definition round_half_even :: "rat \<Rightarrow> int" where
  "round_half_even x =
     (let f = \<lfloor>x\<rfloor>; d = x - of_int f
      in if d < 1/2 then f else if 1/2 < d then f + 1 else if even f then f else f + 1)"

definition fmt_2f :: "rat \<Rightarrow> rat" where
  "fmt_2f x = of_int (round_half_even (x * 100)) / 100"

section \<open>Supplier records\<close>

text \<open>
  A field read with \<^verbatim>\<open>d.get(key, default)\<close> is an option (\<open>None\<close>: the key is absent);
  \<^verbatim>\<open>skuHijo\<close> is also read with \<^verbatim>\<open>h['skuHijo']\<close>, which raises \<^verbatim>\<open>KeyError\<close> when absent.
\<close>

record hijo =
  skuHijo :: "string option"
  estatus :: "pyval option"
  precio :: "pyval option"
  color :: "string option"
  imagenesHijo :: "string list option"

record product_data =
  nombrePadre :: "string option"
  descripcion :: "string option"
  categorias :: "string option"
  subCategorias :: "string option"
  imagenesPadre :: "string list option"
  hijos :: "hijo list option"

definition get_default :: "'a option \<Rightarrow> 'a \<Rightarrow> 'a" where
  "get_default field d = (case field of None \<Rightarrow> d | Some v \<Rightarrow> v)"

section \<open>Pricing\<close>

text \<open>
  \<^verbatim>\<open>sync_manager.py\<close>, lines 75 to 79: the price compared with the shop's. The \<^verbatim>\<open>except\<close>
  clause names two exception classes; any other would leave the block.
\<close>

definition new_price :: "(string \<Rightarrow> rat option) \<Rightarrow> hijo \<Rightarrow> py_error + rat" where
  "new_price parse supplier_variant =
     (case float_py parse (get_default (precio supplier_variant) (PyInt 0)) of
        Inr base_price \<Rightarrow> Inr ((base_price * 0.77) / 0.60)
      | Inl e \<Rightarrow> if e = ValueError \<or> e = TypeError then Inr 0 else Inl e)"

text \<open>\<^verbatim>\<open>shopify_client.py\<close>, lines 136 to 142: the price of a created variant.\<close>

definition final_price :: "(string \<Rightarrow> rat option) \<Rightarrow> hijo \<Rightarrow> py_error + rat" where
  "final_price parse h =
     (case float_py parse (get_default (precio h) (PyInt 0)) of
        Inr base_price \<Rightarrow> (let special_price = base_price * 0.77 in Inr (special_price / 0.60))
      | Inl e \<Rightarrow> if e = ValueError \<or> e = TypeError then Inr 0 else Inl e)"

section \<open>Shop objects\<close>

text \<open>
  \<^verbatim>\<open>shopify.Variant\<close> and \<^verbatim>\<open>shopify.Product\<close>. An object built locally has no identifiers; one
  read from the shop carries its \<^verbatim>\<open>id\<close> (and a variant its \<^verbatim>\<open>product_id\<close>). The shop serialises
  a price as decimal text, kept here as the number it denotes, so \<^verbatim>\<open>float(v.price)\<close> is that
  number.
\<close>

record variant_attrs =
  option1 :: "string option"
  price :: rat
  sku :: "string option"
  inventory_management :: string
  inventory_quantity :: int

record variant = variant_attrs +
  variant_id :: nat
  product_id :: nat

record image =
  src :: string

record 'v product_attrs =
  title :: "string option"
  body_html :: "string option"
  vendor :: string
  product_type :: string
  tags :: "string option list"
  variants :: "'v list"
  images :: "image list"

record saved_product = "variant product_attrs" +
  shopify_id :: nat

section \<open>Python dictionaries\<close>

text \<open>
  A \<^verbatim>\<open>dict\<close> keeps its keys in insertion order; storing under a key already present replaces
  the value and keeps the key's place. \<open>dict_of\<close> is the comprehension \<^verbatim>\<open>{k: v for ...}\<close> over
  the pairs in their order.
\<close>

fun dict_put :: "'k \<Rightarrow> 'v \<Rightarrow> ('k \<times> 'v) list \<Rightarrow> ('k \<times> 'v) list" where
  "dict_put k v [] = [(k, v)]"
| "dict_put k v ((k', v') # d) = (if k' = k then (k, v) # d else (k', v') # dict_put k v d)"

definition dict_of :: "('k \<times> 'v) list \<Rightarrow> ('k \<times> 'v) list" where
  "dict_of kvs = fold (\<lambda>(k, v) d. dict_put k v d) kvs []"

section \<open>\<^verbatim>\<open>ShopifyClient.create_product\<close>: the product object\<close>

text \<open>Lines 134 to 152: one \<^verbatim>\<open>shopify.Variant\<close> for each entry of \<^verbatim>\<open>hijos\<close>.\<close>

fun create_variants :: "(string \<Rightarrow> rat option) \<Rightarrow> hijo list \<Rightarrow> py_error + variant_attrs list" where
  "create_variants parse [] = Inr []"
| "create_variants parse (h # rest) =
     (case final_price parse h of
        Inl e \<Rightarrow> Inl e
      | Inr fp \<Rightarrow>
          (case create_variants parse rest of
             Inl e \<Rightarrow> Inl e
           | Inr vs \<Rightarrow>
               Inr (\<lparr>option1 = color h, price = fmt_2f fp, sku = skuHijo h,
                     inventory_management = ''shopify'', inventory_quantity = 0\<rparr> # vs)))"

text \<open>
  Lines 157 to 163: the images of the parent, then those of every child. Lines 166 and 167
  pass them through a \<^verbatim>\<open>set\<close>, which leaves one copy of each record in an order Python
  does not specify; \<open>remdups\<close> fixes one such order.
\<close>

definition all_images :: "product_data \<Rightarrow> image list" where
  "all_images pd =
     map (\<lambda>img_url. \<lparr>src = img_url\<rparr>) (get_default (imagenesPadre pd) [])
     @ concat (map (\<lambda>h. map (\<lambda>img_url. \<lparr>src = img_url\<rparr>) (get_default (imagenesHijo h) []))
                   (get_default (hijos pd) []))"

definition unique_images :: "product_data \<Rightarrow> image list" where
  "unique_images pd = remdups (all_images pd)"

definition new_product ::
  "(string \<Rightarrow> rat option) \<Rightarrow> product_data \<Rightarrow> py_error + variant_attrs product_attrs" where
  "new_product parse pd =
     (case create_variants parse (get_default (hijos pd) []) of
        Inl e \<Rightarrow> Inl e
      | Inr vs \<Rightarrow>
          Inr \<lparr>title = nombrePadre pd, body_html = descripcion pd,
               vendor = ''PromoOpci'' @ [CHR 0xC3, CHR 0xB3] @ ''n'',
               product_type = get_default (subCategorias pd) ''General'',
               tags = [categorias pd, subCategorias pd],
               variants = vs, images = unique_images pd\<rparr>)"

section \<open>The shop and the client's calls\<close>

text \<open>
  The storefront is an external service. Its state is the list of saved products and the next
  free identifier; \<open>calls\<close> logs every method of \<^verbatim>\<open>ShopifyClient\<close> that the synchronisation
  invokes, in order. Whether the service answers the \<open>n\<close>-th call is decided by an oracle
  \<open>fault\<close>: it answers, it refuses (\<^verbatim>\<open>save()\<close> returns \<^verbatim>\<open>False\<close>), or the library raises.
  A call that involves no \<^verbatim>\<open>save()\<close> has no refusal: any failure of it is an exception.
\<close>

datatype call =
    FindBySku string
  | CreateProduct product_data
  | GetVariants nat
  | UpdatePrice nat rat
  | DeleteVariant nat nat
  | CloseSession

datatype outcome = Succeeds | Refused | Raised

record world =
  shop :: "saved_product list"
  next_id :: nat
  calls :: "call list"
  session_active :: bool

record found_variant =
  found_variant_id :: nat
  found_product_id :: nat
  found_price :: rat

definition invoke :: "call \<Rightarrow> world \<Rightarrow> world" where
  "invoke c w = w\<lparr>calls := calls w @ [c]\<rparr>"

definition answer :: "(nat \<Rightarrow> call \<Rightarrow> outcome) \<Rightarrow> call \<Rightarrow> world \<Rightarrow> outcome" where
  "answer fault c w = fault (length (calls w)) c"

definition shop_variants :: "world \<Rightarrow> variant list" where
  "shop_variants w = concat (map variants (shop w))"

text \<open>
  Lines 25 to 72. The \<^verbatim>\<open>except\<close> clause logs and raises again. The service's search is taken
  to return the first variant whose SKU is the one asked for.
\<close>

definition find_product_variant_by_sku ::
  "(nat \<Rightarrow> call \<Rightarrow> outcome) \<Rightarrow> string \<Rightarrow> world \<Rightarrow> (py_error + found_variant option) \<times> world" where
  "find_product_variant_by_sku fault s w =
     (let c = FindBySku s; w' = invoke c w
      in if answer fault c w = Succeeds
         then (Inr (case find (\<lambda>v. sku v = Some s) (shop_variants w) of
                      None \<Rightarrow> None
                    | Some variant_node \<Rightarrow>
                        Some \<lparr>found_variant_id = variant_id variant_node,
                              found_product_id = product_id variant_node,
                              found_price = price variant_node\<rparr>), w')
         else (Inl ShopifyException, w'))"

text \<open>Lines 74 to 91. Every exception is caught and answered with \<^verbatim>\<open>False\<close>.\<close>

definition set_price :: "nat \<Rightarrow> rat \<Rightarrow> saved_product \<Rightarrow> saved_product" where
  "set_price vid p sp =
     sp\<lparr>variants := map (\<lambda>v. if variant_id v = vid then v\<lparr>price := p\<rparr> else v) (variants sp)\<rparr>"

definition update_variant_price ::
  "(nat \<Rightarrow> call \<Rightarrow> outcome) \<Rightarrow> nat \<Rightarrow> rat \<Rightarrow> world \<Rightarrow> bool \<times> world" where
  "update_variant_price fault numeric_variant_id np w =
     (let c = UpdatePrice numeric_variant_id np; w' = invoke c w
      in if answer fault c w = Succeeds \<and> numeric_variant_id \<in> set (map variant_id (shop_variants w))
         then (True, w'\<lparr>shop := map (set_price numeric_variant_id (fmt_2f np)) (shop w')\<rparr>)
         else (False, w'))"

text \<open>Lines 93 to 104. A failure is answered with the empty list.\<close>

definition get_variants_for_product ::
  "(nat \<Rightarrow> call \<Rightarrow> outcome) \<Rightarrow> nat \<Rightarrow> world \<Rightarrow> variant list \<times> world" where
  "get_variants_for_product fault numeric_product_id w =
     (let c = GetVariants numeric_product_id; w' = invoke c w
      in if answer fault c w = Succeeds
         then (case find (\<lambda>p. shopify_id p = numeric_product_id) (shop w) of
                 None \<Rightarrow> ([], w')
               | Some sp \<Rightarrow> (variants sp, w'))
         else ([], w'))"

text \<open>Lines 106 to 118.\<close>

definition remove_variant :: "nat \<Rightarrow> nat \<Rightarrow> saved_product \<Rightarrow> saved_product" where
  "remove_variant pid vid sp =
     (if shopify_id sp = pid
      then sp\<lparr>variants := filter (\<lambda>v. variant_id v \<noteq> vid) (variants sp)\<rparr>
      else sp)"

definition delete_product_variant ::
  "(nat \<Rightarrow> call \<Rightarrow> outcome) \<Rightarrow> nat \<Rightarrow> nat \<Rightarrow> world \<Rightarrow> bool \<times> world" where
  "delete_product_variant fault numeric_product_id numeric_variant_id w =
     (let c = DeleteVariant numeric_product_id numeric_variant_id; w' = invoke c w
      in if answer fault c w = Succeeds
            \<and> list_ex (\<lambda>p. shopify_id p = numeric_product_id
                           \<and> numeric_variant_id \<in> set (map variant_id (variants p))) (shop w)
         then (True, w'\<lparr>shop := map (remove_variant numeric_product_id numeric_variant_id) (shop w')\<rparr>)
         else (False, w'))"

text \<open>
  Lines 120 to 180. The product object is built outside the \<^verbatim>\<open>try\<close>, so an exception there
  leaves the method; \<^verbatim>\<open>save()\<close> is inside it. A saved product and its variants get fresh
  identifiers.
\<close>

definition save_product :: "variant_attrs product_attrs \<Rightarrow> nat \<Rightarrow> saved_product" where
  "save_product np n =
     \<lparr>title = title np, body_html = body_html np, vendor = vendor np,
      product_type = product_type np, tags = tags np,
      variants = map (\<lambda>(i, a). \<lparr>option1 = option1 a, price = price a, sku = sku a,
                                 inventory_management = inventory_management a,
                                 inventory_quantity = inventory_quantity a,
                                 variant_id = n + 1 + i, product_id = n\<rparr>)
                     (enumerate 0 (variants np)),
      images = images np, shopify_id = n\<rparr>"

definition create_product ::
  "(nat \<Rightarrow> call \<Rightarrow> outcome) \<Rightarrow> (string \<Rightarrow> rat option) \<Rightarrow> product_data \<Rightarrow> world
     \<Rightarrow> (py_error + saved_product option) \<times> world" where
  "create_product fault parse pd w =
     (let c = CreateProduct pd; w' = invoke c w
      in case new_product parse pd of
           Inl e \<Rightarrow> (Inl e, w')
         | Inr np \<Rightarrow>
             (case answer fault c w of
                Succeeds \<Rightarrow>
                  (let saved = save_product np (next_id w)
                   in (Inr (Some saved),
                       w'\<lparr>shop := shop w' @ [saved],
                          next_id := next_id w + 1 + length (variants np)\<rparr>))
              | Refused \<Rightarrow> (Inr None, w')
              | Raised \<Rightarrow> (Inr None, w')))"

definition close_session :: "world \<Rightarrow> world" where
  "close_session w = (invoke CloseSession w)\<lparr>session_active := False\<rparr>"

section \<open>\<^verbatim>\<open>SyncManager.run_full_sync\<close>\<close>

text \<open>
  Lines 47 to 49: the dictionary of the active children, keyed by \<^verbatim>\<open>skuHijo\<close>. A child is
  active when its \<^verbatim>\<open>estatus\<close> is the string \<^verbatim>\<open>'1'\<close>; the key of an inactive child is not read.
\<close>

definition is_active :: "hijo \<Rightarrow> bool" where
  "is_active h = (estatus h = Some (PyStr ''1''))"

fun active_items :: "hijo list \<Rightarrow> py_error + (string \<times> hijo) list" where
  "active_items [] = Inr []"
| "active_items (h # hs) =
     (if is_active h
      then (case skuHijo h of
              None \<Rightarrow> Inl KeyError
            | Some k \<Rightarrow> (case active_items hs of Inl e \<Rightarrow> Inl e | Inr kvs \<Rightarrow> Inr ((k, h) # kvs)))
      else active_items hs)"

definition supplier_variants_active :: "product_data \<Rightarrow> py_error + (string \<times> hijo) list" where
  "supplier_variants_active pd =
     (case active_items (get_default (hijos pd) []) of
        Inl e \<Rightarrow> Inl e
      | Inr kvs \<Rightarrow> Inr (dict_of kvs))"

text \<open>
  Lines 70 to 84: the loop over the active children. An exception in its body leaves the loop
  (the first component of the result), the world being as it was at that moment.
\<close>

fun update_prices ::
  "(nat \<Rightarrow> call \<Rightarrow> outcome) \<Rightarrow> (string \<Rightarrow> rat option) \<Rightarrow> (string \<times> hijo) list
     \<Rightarrow> (string option \<times> variant) list \<Rightarrow> world \<Rightarrow> py_error option \<times> world" where
  "update_prices fault parse [] shopify_variants_by_sku w = (None, w)"
| "update_prices fault parse ((k, supplier_variant) # rest) shopify_variants_by_sku w =
     (case map_of shopify_variants_by_sku (Some k) of
        None \<Rightarrow> update_prices fault parse rest shopify_variants_by_sku w
      | Some shopify_variant \<Rightarrow>
          (case new_price parse supplier_variant of
             Inl e \<Rightarrow> (Some e, w)
           | Inr np \<Rightarrow>
               if \<bar>price shopify_variant - np\<bar> > 0.01
               then update_prices fault parse rest shopify_variants_by_sku
                      (snd (update_variant_price fault (variant_id shopify_variant) np w))
               else update_prices fault parse rest shopify_variants_by_sku w))"

text \<open>
  Lines 87 to 94. \<^verbatim>\<open>skus_to_delete\<close> is a \<^verbatim>\<open>set\<close>, iterated in an order Python does not
  specify; here its elements come in the order of the shop's dictionary.
\<close>

fun delete_variants ::
  "(nat \<Rightarrow> call \<Rightarrow> outcome) \<Rightarrow> string option list \<Rightarrow> (string option \<times> variant) list
     \<Rightarrow> world \<Rightarrow> py_error option \<times> world" where
  "delete_variants fault [] shopify_variants_by_sku w = (None, w)"
| "delete_variants fault (k # rest) shopify_variants_by_sku w =
     (case map_of shopify_variants_by_sku k of
        None \<Rightarrow> (Some KeyError, w)
      | Some variant_to_delete \<Rightarrow>
          delete_variants fault rest shopify_variants_by_sku
            (snd (delete_product_variant fault (product_id variant_to_delete)
                    (variant_id variant_to_delete) w)))"

definition skus_to_delete ::
  "(string \<times> hijo) list \<Rightarrow> (string option \<times> variant) list \<Rightarrow> string option list" where
  "skus_to_delete active shopify_variants_by_sku =
     (let supplier_skus = map (\<lambda>(k, h). Some k) active;
          shopify_skus = map fst shopify_variants_by_sku
      in filter (\<lambda>k. k \<notin> set supplier_skus) shopify_skus)"

text \<open>Lines 44 to 94: the body of the loop over the products.\<close>

definition process_product ::
  "(nat \<Rightarrow> call \<Rightarrow> outcome) \<Rightarrow> (string \<Rightarrow> rat option) \<Rightarrow> product_data \<Rightarrow> world
     \<Rightarrow> py_error option \<times> world" where
  "process_product fault parse pd w =
     (case supplier_variants_active pd of
        Inl e \<Rightarrow> (Some e, w)
      | Inr active \<Rightarrow>
          (case active of
             [] \<Rightarrow> (None, w)
           | (first_sku, first_variant) # others \<Rightarrow>
               (case find_product_variant_by_sku fault first_sku w of
                  (Inl e, w1) \<Rightarrow> (Some e, w1)
                | (Inr None, w1) \<Rightarrow>
                    (case create_product fault parse pd w1 of
                       (Inl e, w2) \<Rightarrow> (Some e, w2)
                     | (Inr created, w2) \<Rightarrow> (None, w2))
                | (Inr (Some existing_product_info), w1) \<Rightarrow>
                    (case get_variants_for_product fault
                            (found_product_id existing_product_info) w1 of
                       (shopify_variants, w2) \<Rightarrow>
                         (let shopify_variants_by_sku =
                                dict_of (map (\<lambda>v. (sku v, v)) shopify_variants)
                          in case update_prices fault parse active shopify_variants_by_sku w2 of
                               (Some e, w3) \<Rightarrow> (Some e, w3)
                             | (None, w3) \<Rightarrow>
                                 delete_variants fault
                                   (skus_to_delete active shopify_variants_by_sku)
                                   shopify_variants_by_sku w3)))))"

fun sync_products ::
  "(nat \<Rightarrow> call \<Rightarrow> outcome) \<Rightarrow> (string \<Rightarrow> rat option) \<Rightarrow> product_data list \<Rightarrow> world
     \<Rightarrow> py_error option \<times> world" where
  "sync_products fault parse [] w = (None, w)"
| "sync_products fault parse (pd # rest) w =
     (case process_product fault parse pd w of
        (Some e, w') \<Rightarrow> (Some e, w')
      | (None, w') \<Rightarrow> sync_products fault parse rest w')"

text \<open>The slice \<^verbatim>\<open>xs[:n]\<close>: a negative \<open>n\<close> counts from the end.\<close>

definition slice_to :: "'a list \<Rightarrow> int \<Rightarrow> 'a list" where
  "slice_to xs n = (if 0 \<le> n then take (nat n) xs else take (nat (int (length xs) + n)) xs)"

text \<open>Lines 36 to 40: a limit that is \<^verbatim>\<open>None\<close> or \<^verbatim>\<open>0\<close> is false in the \<^verbatim>\<open>if\<close>.\<close>

definition products_to_process :: "product_data list \<Rightarrow> int option \<Rightarrow> product_data list" where
  "products_to_process all_products product_limit =
     (case product_limit of
        None \<Rightarrow> all_products
      | Some n \<Rightarrow> if n \<noteq> 0 then slice_to all_products n else all_products)"

text \<open>
  Lines 23 to 100. \<open>supplier\<close> is what \<^verbatim>\<open>PromoOptionClient.get_all_products\<close> does in this run:
  it returns the catalogue or raises. The result holds the exception that the outer \<^verbatim>\<open>except\<close>
  clause caught, if any; the \<^verbatim>\<open>finally\<close> clause closes the session on every path.
\<close>

definition run_full_sync ::
  "(nat \<Rightarrow> call \<Rightarrow> outcome) \<Rightarrow> (string \<Rightarrow> rat option) \<Rightarrow> py_error + product_data list
     \<Rightarrow> int option \<Rightarrow> world \<Rightarrow> py_error option \<times> world" where
  "run_full_sync fault parse supplier product_limit w =
     (case (case supplier of
              Inl e \<Rightarrow> (Some e, w)
            | Inr all_products \<Rightarrow>
                sync_products fault parse (products_to_process all_products product_limit) w) of
        (critical, w') \<Rightarrow> (critical, close_session w'))"

section \<open>The specification's operations\<close>

text \<open>
  The pricing policy in the specification's words: the base price less a discount rate of 0.23,
  divided by one minus a margin rate of 0.40; 0.00 when the base price is missing or is no
  number.
\<close>

definition spec_price :: "(string \<Rightarrow> rat option) \<Rightarrow> hijo \<Rightarrow> rat" where
  "spec_price parse h =
     (case float_py parse (get_default (precio h) (PyInt 0)) of
        Inr base_price \<Rightarrow> (base_price * (1 - 0.23)) / (1 - 0.40)
      | Inl e \<Rightarrow> 0)"

text \<open>
  The reconciler's price step in the specification's words: for every active supplier SKU
  present in the destination, an \<open>UpdatePrice\<close> with the new price when the absolute difference
  to the destination's price exceeds 0.01.
\<close>

definition spec_price_updates ::
  "(string \<Rightarrow> rat option) \<Rightarrow> (string \<times> hijo) list \<Rightarrow> (string option \<rightharpoonup> variant) \<Rightarrow> call list" where
  "spec_price_updates parse active destination =
     concat (map (\<lambda>(k, h). case destination (Some k) of
                              None \<Rightarrow> []
                            | Some v \<Rightarrow>
                                if \<bar>spec_price parse h - price v\<bar> > 0.01
                                then [UpdatePrice (variant_id v) (spec_price parse h)]
                                else []) active)"

text \<open>
  The deletion step in the specification's words, the destination being keyed by SKU: a
  \<open>DeleteVariant\<close> for each destination SKU that is not an active supplier SKU.
\<close>

definition spec_deletions :: "string list \<Rightarrow> (string option \<times> variant) list \<Rightarrow> call list" where
  "spec_deletions active_skus destination =
     map (\<lambda>(k, v). DeleteVariant (product_id v) (variant_id v))
       (filter (\<lambda>(k, v). k \<notin> Some ` set active_skus) destination)"


definition is_find :: "call \<Rightarrow> bool" where
  "is_find c = (case c of FindBySku s \<Rightarrow> True | _ \<Rightarrow> False)"

definition is_update :: "call \<Rightarrow> bool" where
  "is_update c = (case c of UpdatePrice i p \<Rightarrow> True | _ \<Rightarrow> False)"

definition is_delete :: "call \<Rightarrow> bool" where
  "is_delete c = (case c of DeleteVariant p i \<Rightarrow> True | _ \<Rightarrow> False)"

text \<open>The closed form of one created variant (lines 145 to 150).\<close>

definition variant_of_hijo :: "(string \<Rightarrow> rat option) \<Rightarrow> hijo \<Rightarrow> variant_attrs" where
  "variant_of_hijo parse h =
     \<lparr>option1 = color h, price = fmt_2f (spec_price parse h), sku = skuHijo h,
      inventory_management = ''shopify'', inventory_quantity = 0\<rparr>"

section \<open>Example data\<close>

definition no_fault :: "nat \<Rightarrow> call \<Rightarrow> outcome" where
  "no_fault n c = Succeeds"

definition writes_fail :: "nat \<Rightarrow> call \<Rightarrow> outcome" where
  "writes_fail n c = (case c of FindBySku s \<Rightarrow> Succeeds | GetVariants p \<Rightarrow> Succeeds | _ \<Rightarrow> Raised)"

definition empty_shop :: world where
  "empty_shop = \<lparr>shop = [], next_id = 1, calls = [], session_active = True\<rparr>"

definition child :: "string \<Rightarrow> string \<Rightarrow> pyval option \<Rightarrow> hijo" where
  "child k status p =
     \<lparr>skuHijo = Some k, estatus = Some (PyStr status), precio = p,
      color = Some ''PLATA'', imagenesHijo = None\<rparr>"

definition parent :: "string \<Rightarrow> hijo list \<Rightarrow> product_data" where
  "parent name hs =
     \<lparr>nombrePadre = Some name, descripcion = None, categorias = Some ''BEBIDAS'',
      subCategorias = Some ''VASOS'', imagenesPadre = None, hijos = Some hs\<rparr>"


definition product_S1 :: product_data where
  "product_S1 = parent ''P'' [child ''S1'' ''1'' (Some (PyStr ''100.00''))]"

definition product_mixed :: product_data where
  "product_mixed = parent ''M'' [child ''S1'' ''1'' (Some (PyStr ''100.00'')),
                                 child ''S2'' ''0'' (Some (PyStr ''200.00''))]"

definition product_inactive :: product_data where
  "product_inactive = parent ''I'' [child ''S7'' ''0'' (Some (PyStr ''100.00'')),
                                    child ''S8'' ''2'' (Some (PyStr ''200.00''))]"

definition product_images :: product_data where
  "product_images =
     (parent ''G'' [(child ''S1'' ''1'' None)\<lparr>imagenesHijo := Some [''B'', ''C'']\<rparr>])
       \<lparr>imagenesPadre := Some [''A'', ''B'']\<rparr>"

definition stored :: "string \<Rightarrow> rat \<Rightarrow> nat \<Rightarrow> nat \<Rightarrow> variant" where
  "stored k p i pid =
     \<lparr>option1 = Some ''PLATA'', price = p, sku = Some k, inventory_management = ''shopify'',
      inventory_quantity = 0, variant_id = i, product_id = pid\<rparr>"

definition shop_with :: "variant list \<Rightarrow> world" where
  "shop_with vs =
     \<lparr>shop = [\<lparr>title = Some ''P'', body_html = None, vendor = ''V'', product_type = ''VASOS'',
               tags = [], variants = vs, images = [], shopify_id = 1\<rparr>],
      next_id = 10, calls = [], session_active = True\<rparr>"


definition shop_S3 :: world where
  "shop_S3 = shop_with [stored ''S1'' (12833/100) 2 1, stored ''S3'' 5 3 1]"






section \<open>Pricing and rounding\<close>

lemma floor_rat_numeral [simp]:
  "\<lfloor>numeral a / numeral b :: rat\<rfloor> = numeral a div numeral b"
  using floor_divide_of_int_eq [of "numeral a" "numeral b", where ?'a = rat] by simp

lemma round_half_even_close: "\<bar>of_int (round_half_even x) - x\<bar> \<le> 1/2"
  unfolding round_half_even_def Let_def
  by (auto simp: abs_if; linarith)

lemma fmt_2f_close: "\<bar>fmt_2f x - x\<bar> \<le> 1/200"
proof -
  have "\<bar>of_int (round_half_even (x * 100)) - x * 100\<bar> \<le> 1/2"
    by (rule round_half_even_close)
  then show ?thesis
    unfolding fmt_2f_def by (simp add: abs_if field_simps split: if_splits)
qed

lemma fmt_2f_zero [simp]: "fmt_2f 0 = 0"
  by (simp add: fmt_2f_def round_half_even_def)

lemma float_py_errors: "float_py parse x = Inl e \<Longrightarrow> e = ValueError \<or> e = TypeError"
  by (auto simp: float_py_def split: pyval.splits option.splits)

lemma new_price_total: "new_price parse h = Inr (spec_price parse h)"
  by (auto simp: new_price_def spec_price_def split: sum.splits dest: float_py_errors)

lemma final_price_total: "final_price parse h = Inr (spec_price parse h)"
  by (auto simp: final_price_def spec_price_def split: sum.splits dest: float_py_errors)

lemma create_variants_total: "create_variants parse hs = Inr (map (variant_of_hijo parse) hs)"
  by (induction hs) (simp_all add: final_price_total variant_of_hijo_def)




lemma calls_invoke [simp]: "calls (invoke c w) = calls w @ [c]"
  by (simp add: invoke_def)

lemma calls_update_variant_price [simp]:
  "calls (snd (update_variant_price fault i p w)) = calls w @ [UpdatePrice i p]"
  by (simp add: update_variant_price_def Let_def)



text \<open>
  C8. When \<^verbatim>\<open>precio\<close> is missing, or is a value that \<^verbatim>\<open>float()\<close> rejects, both price computations
  return 0 (they return, they do not raise), and the variant created for such a child has the
  price 0.00.
\<close>

theorem unusable_price_is_zero:
  assumes "precio h = None \<or> (\<exists>v e. precio h = Some v \<and> float_py parse v = Inl e)"
  shows "new_price parse h = Inr 0 \<and> final_price parse h = Inr 0
     \<and> map_sum id (map price) (create_variants parse [h]) = Inr [0]"
  using assms
  by (auto simp: new_price_total final_price_total spec_price_def get_default_def float_py_def
        create_variants_total variant_of_hijo_def)

theorem unusable_price_is_zero_witness:
  "precio (child ''S1'' ''1'' (Some (PyStr ''abc''))) = Some (PyStr ''abc'')
   \<and> float_py decimal_literal (PyStr ''abc'') = Inl ValueError
   \<and> new_price decimal_literal (child ''S1'' ''1'' (Some (PyStr ''abc''))) = Inr 0
   \<and> final_price decimal_literal (child ''S1'' ''1'' (Some (PyStr ''abc''))) = Inr 0
   \<and> precio (child ''S1'' ''1'' None) = None
   \<and> new_price decimal_literal (child ''S1'' ''1'' None) = Inr 0
   \<and> map_sum id (map price) (create_variants decimal_literal [child ''S1'' ''1'' None]) = Inr [0]"
proof -
  have p: "precio (child ''S1'' ''1'' (Some (PyStr ''abc''))) = Some (PyStr ''abc'')"
    by (simp add: child_def)
  have e: "float_py decimal_literal (PyStr ''abc'') = Inl ValueError"
    by code_simp
  have m: "precio (child ''S1'' ''1'' None) = None"
    by (simp add: child_def)
  have h1: "precio (child ''S1'' ''1'' (Some (PyStr ''abc''))) = None
        \<or> (\<exists>v e. precio (child ''S1'' ''1'' (Some (PyStr ''abc''))) = Some v
                  \<and> float_py decimal_literal v = Inl e)"
    using p e by blast
  have h2: "precio (child ''S1'' ''1'' None) = None
        \<or> (\<exists>v e. precio (child ''S1'' ''1'' None) = Some v \<and> float_py decimal_literal v = Inl e)"
    using m by blast
  show ?thesis
    using unusable_price_is_zero [OF h1] unusable_price_is_zero [OF h2] p e m by simp
qed

section \<open>Images\<close>

lemma set_all_images:
  "set (all_images pd) = (\<lambda>u. \<lparr>src = u\<rparr>) `
     (set (get_default (imagenesPadre pd) [])
        \<union> (\<Union>h \<in> set (get_default (hijos pd) []). set (get_default (imagenesHijo h) [])))"
  by (auto simp: all_images_def)

text \<open>
  C9. The product object that \<^verbatim>\<open>create_product\<close> saves always exists, and its image list holds
  no record twice and, as a set, is the union of the parent's image URLs and of every child's
  image URLs; hence the set does not depend on the order of the inputs.
\<close>

theorem created_images_are_deduplicated_union:
  "\<exists>np. new_product parse pd = Inr np
     \<and> distinct (images np)
     \<and> set (images np) = (\<lambda>u. \<lparr>src = u\<rparr>) `
         (set (get_default (imagenesPadre pd) [])
            \<union> (\<Union>h \<in> set (get_default (hijos pd) []). set (get_default (imagenesHijo h) [])))"
  by (simp add: new_product_def create_variants_total unique_images_def set_all_images)

theorem created_images_are_deduplicated_union_witness:
  "\<exists>np. new_product decimal_literal product_images = Inr np
     \<and> distinct (images np)
     \<and> set (images np) = {\<lparr>src = ''A''\<rparr>, \<lparr>src = ''B''\<rparr>, \<lparr>src = ''C''\<rparr>}
     \<and> length (images np) = 3"
proof -
  obtain np where np: "new_product decimal_literal product_images = Inr np"
      and d: "distinct (images np)"
      and s: "set (images np) = (\<lambda>u. \<lparr>src = u\<rparr>) `
         (set (get_default (imagenesPadre product_images) [])
            \<union> (\<Union>h \<in> set (get_default (hijos product_images) []).
                  set (get_default (imagenesHijo h) [])))"
    using created_images_are_deduplicated_union [of decimal_literal product_images] by blast
  have s': "set (images np) = {\<lparr>src = ''A''\<rparr>, \<lparr>src = ''B''\<rparr>, \<lparr>src = ''C''\<rparr>}"
    unfolding s by (auto simp: product_images_def parent_def child_def get_default_def)
  have "card (set (images np)) = 3"
    unfolding s' by simp
  then have "length (images np) = 3"
    using d by (simp add: distinct_card)
  then show ?thesis using np d s' by blast
qed

section \<open>The orchestrator\<close>

lemma active_items_none: "\<forall>h \<in> set hs. \<not> is_active h \<Longrightarrow> active_items hs = Inr []"
  by (induction hs) auto

text \<open>
  C6. A product none of whose children is active is skipped: the loop body returns without
  an exception and leaves the world as it was, so no call of any kind reaches the shop.
\<close>

theorem no_active_variant_no_operation:
  assumes "\<forall>h \<in> set (get_default (hijos pd) []). \<not> is_active h"
  shows "process_product fault parse pd w = (None, w)"
  using assms
  by (simp add: process_product_def supplier_variants_active_def active_items_none dict_of_def)

theorem no_active_variant_no_operation_witness:
  "map is_active (get_default (hijos product_inactive) []) = [False, False]
   \<and> process_product writes_fail decimal_literal product_inactive shop_S3 = (None, shop_S3)
   \<and> calls (snd (process_product writes_fail decimal_literal product_inactive shop_S3)) = []"
proof -
  have h: "\<forall>h \<in> set (get_default (hijos product_inactive) []). \<not> is_active h"
    by (simp add: product_inactive_def parent_def child_def get_default_def is_active_def)
  have m: "map is_active (get_default (hijos product_inactive) []) = [False, False]"
    by (simp add: product_inactive_def parent_def child_def get_default_def is_active_def)
  have c: "calls shop_S3 = []" by (simp add: shop_S3_def shop_with_def)
  show ?thesis
    using no_active_variant_no_operation [OF h, of writes_fail decimal_literal shop_S3] m c by simp
qed

text \<open>
  C10. A product limit of 0 selects the whole catalogue, as no limit does, and the run is the
  same as the run without a limit.
\<close>

theorem zero_limit_is_no_limit:
  "products_to_process all_products (Some 0) = all_products
   \<and> run_full_sync fault parse supplier (Some 0) w = run_full_sync fault parse supplier None w"
  by (cases supplier) (simp_all add: run_full_sync_def products_to_process_def)

theorem zero_limit_is_no_limit_witness:
  "products_to_process [product_S1, product_inactive] (Some 0) = [product_S1, product_inactive]
   \<and> calls (snd (run_full_sync no_fault decimal_literal (Inr [product_S1, product_inactive])
                   (Some 0) empty_shop))
       = [FindBySku ''S1'', CreateProduct product_S1, CloseSession]"
proof -
  have "calls (snd (run_full_sync no_fault decimal_literal (Inr [product_S1, product_inactive])
                   None empty_shop))
       = [FindBySku ''S1'', CreateProduct product_S1, CloseSession]"
    by code_simp
  then show ?thesis
    using zero_limit_is_no_limit
      [of "[product_S1, product_inactive]" no_fault decimal_literal
          "Inr [product_S1, product_inactive]" empty_shop]
    by simp
qed

section \<open>Dictionaries\<close>















section \<open>The calls a run makes\<close>

lemma calls_delete_product_variant [simp]:
  "calls (snd (delete_product_variant fault p i w)) = calls w @ [DeleteVariant p i]"
  by (simp add: delete_product_variant_def Let_def)




lemma calls_close_session [simp]: "calls (close_session w) = calls w @ [CloseSession]"
  by (simp add: close_session_def)








lemma filter_spec_price_updates [simp]:
  "filter is_find (spec_price_updates parse active dest) = []"
  "filter is_delete (spec_price_updates parse active dest) = []"
  "filter is_update (spec_price_updates parse active dest) = spec_price_updates parse active dest"
  by (auto simp: spec_price_updates_def is_find_def is_delete_def is_update_def
        filter_empty_conv filter_id_conv split: option.splits)

lemma filter_spec_deletions [simp]:
  "filter is_find (spec_deletions ks d) = []"
  "filter is_update (spec_deletions ks d) = []"
  "filter is_delete (spec_deletions ks d) = spec_deletions ks d"
  by (auto simp: spec_deletions_def is_find_def is_delete_def is_update_def
        filter_empty_conv filter_id_conv)

section \<open>Reconciling an existing product\<close>






section \<open>Failures of single operations\<close>











section \<open>Creation and inactive children\<close>

lemma created_variants_cover_all_children:
  "new_product parse pd = Inr np \<Longrightarrow>
     map sku (variants np) = map skuHijo (get_default (hijos pd) [])
     \<and> map price (variants np) = map (\<lambda>h. fmt_2f (spec_price parse h)) (get_default (hijos pd) [])"
  by (auto simp: new_product_def create_variants_total variant_of_hijo_def comp_def)

lemma rounded_price_within_tolerance: "\<not> \<bar>fmt_2f x - x\<bar> > 0.01"
  using fmt_2f_close [of x] by simp

text \<open>
  C2, evaluated on a product with the active child S1 and the inactive child S2, the shop being
  empty. The probe S1 finds nothing and one \<^verbatim>\<open>create_product\<close> call follows, as the claim
  says; but \<^verbatim>\<open>create_product\<close> loops over all of \<^verbatim>\<open>hijos\<close>, so the saved product has a variant
  for the inactive S2 as well, whereas the dictionary of active children has S1 alone.
\<close>

theorem create_product_includes_inactive_children:
  "map_sum id (map fst) (supplier_variants_active product_mixed) = Inr [''S1'']
   \<and> fst (process_product no_fault decimal_literal product_mixed empty_shop) = None
   \<and> calls (snd (process_product no_fault decimal_literal product_mixed empty_shop))
       = [FindBySku ''S1'', CreateProduct product_mixed]
   \<and> map sku (shop_variants (snd (process_product no_fault decimal_literal product_mixed empty_shop)))
       = [Some ''S1'', Some ''S2'']
   \<and> map price (shop_variants (snd (process_product no_fault decimal_literal product_mixed empty_shop)))
       = [12833/100, 25667/100]"
  by code_simp

text \<open>
  C7, evaluated on the same catalogue. The first run, on the empty shop, creates the product
  with the variants 2 (S1) and 3 (S2) and every call succeeds. The second run, on the
  resulting shop with the same catalogue, updates no price but deletes variant 3, whose SKU
  is not active: the shop's SKUs after the first run are not the active supplier SKUs.
\<close>

theorem second_run_deletes_inactive_child:
  "fst (run_full_sync no_fault decimal_literal (Inr [product_mixed]) None empty_shop) = None
   \<and> calls (snd (run_full_sync no_fault decimal_literal (Inr [product_mixed]) None empty_shop))
       = [FindBySku ''S1'', CreateProduct product_mixed, CloseSession]
   \<and> map sku (shop_variants
         (snd (run_full_sync no_fault decimal_literal (Inr [product_mixed]) None empty_shop)))
       = [Some ''S1'', Some ''S2'']
   \<and> calls (snd (run_full_sync no_fault decimal_literal (Inr [product_mixed]) None
         (snd (run_full_sync no_fault decimal_literal (Inr [product_mixed]) None empty_shop))))
       = [FindBySku ''S1'', CreateProduct product_mixed, CloseSession,
          FindBySku ''S1'', GetVariants 1, DeleteVariant 1 3, CloseSession]"
  by code_simp

end
